theory Spec2Isabelle
  imports Main
begin

section \<open>The git artifact reader of store/git.go\<close>

text \<open>
  The reader opens or clones a repository, pulls it and returns one file of its worktree.
  Everything it calls outside store/git.go (go-git, the Kubernetes secret lookup, the
  local file system, the SSH key parser) is a parameter of the model: the \<open>world\<close>
  record holds, for every such call, the answer the collaborator gives, and a trace of
  the calls made. The functions of git.go are translated one by one in state-passing
  style over that record.
\<close>

subsection \<open>Go values\<close>

text \<open>\<open>[]byte\<close>: an Isabelle \<open>char\<close> is one byte.\<close>

type_synonym bytes = string

text \<open>
  The \<open>error\<close> values the collaborators return. git.go compares one of them by identity
  (\<open>git.ErrRepositoryNotExists\<close>); go-git's \<open>Worktree.Pull\<close> returns the non-nil value
  \<open>git.NoErrAlreadyUpToDate\<close> when there is nothing to fetch.
\<close>

datatype go_error =
    ErrRepositoryNotExists
  | NoErrAlreadyUpToDate
  | ErrBranchNotFound
  | ErrTagNotFound
  | ErrIsBareRepository
  | EOF
  | ErrOther string

text \<open>
  What \<open>Read\<close> returns as its error: one constructor per \<open>fmt.Errorf\<close> of git.go, named
  after the error kinds of the specification and carrying the wrapped cause. The last
  constructor is the run-time panic of a method call through a nil \<open>*git.Repository\<close>.
\<close>

datatype error =
    RepositoryOpenFailed go_error
  | CloneFailed go_error
  | SecretLookupFailed string go_error
  | SSHKeyInvalid string go_error
  | BranchNotFound go_error
  | TagNotFound go_error
  | WorktreeUnavailable go_error
  | PullFailed go_error
  | FileOpenFailed go_error
  | FileReadFailed go_error
  | NilPointerDereference

text \<open>\<open>transport.AuthMethod\<close>: \<open>http.BasicAuth{Username, Password}\<close> or
  \<open>ssh.PublicKeys{User, Signer}\<close>; the nil interface is \<open>None\<close>.\<close>

datatype AuthMethod =
    BasicAuth string string
  | PublicKeys string string

text \<open>
  Modelled from the spec: the declaration of \<open>v1alpha1.GitArtifact\<close> is not among the
  source files. The fields are the ones git.go reads; \<open>Creds\<close> is a pointer (nil is
  \<open>None\<close>) to the two secret references of the specification's \<open>BasicAuthRef\<close>.
\<close>

record SecretKeySelector =
  Name :: string
  Key :: string

record GitCreds =
  Username :: SecretKeySelector
  Password :: SecretKeySelector

record GitArtifact =
  URL :: string
  CloneDirectory :: string
  Creds :: "GitCreds option"
  Namespace :: string
  SSHKeyPath :: string
  FilePath :: string
  Branch :: string
  Tag :: string

text \<open>\<open>git.PullOptions\<close> and \<open>git.CloneOptions\<close>, the fields git.go sets; the zero value
  of a \<open>plumbing.ReferenceName\<close> is the empty string.\<close>

record PullOptions =
  pull_RemoteName :: string
  pull_ReferenceName :: string
  pull_RecurseSubmodules :: nat
  pull_Auth :: "AuthMethod option"

record CloneOptions =
  clone_URL :: string
  clone_ReferenceName :: string
  clone_RecurseSubmodules :: nat
  clone_Auth :: "AuthMethod option"

definition DefaultSubmoduleRecursionDepth :: nat where
  "DefaultSubmoduleRecursionDepth = 10"

text \<open>\<open>config.Branch\<close> (git.go returns its \<open>Merge\<close>) and \<open>plumbing.Reference\<close> (git.go
  returns its \<open>Name()\<close>).\<close>

record config_Branch =
  branch_Name :: string
  branch_Remote :: string
  Merge :: string

record Reference =
  ref_Name :: string
  ref_Hash :: string

subsection \<open>The collaborators\<close>

text \<open>
  A repository on disk, as far as git.go can observe it: the answer of \<open>r.Branch(name)\<close>,
  of \<open>r.Tag(name)\<close>, of \<open>r.Worktree()\<close> together with what \<open>w.Filesystem.Open(path)\<close>
  finds (the content of the file, or an error), and the commit the checkout is at.
\<close>

record repository =
  cfg_Branches :: "string \<Rightarrow> go_error + config_Branch"
  ref_Tags :: "string \<Rightarrow> go_error + Reference"
  worktree_fs :: "go_error + (string \<Rightarrow> go_error + bytes)"
  HEAD :: string

text \<open>Every call out of git.go is recorded, in order.\<close>

datatype event =
    EvPlainOpen string
  | EvGetSecrets string string string
  | EvReadFile string
  | EvParsePrivateKey
  | EvWorktree string
  | EvBranch string string
  | EvTag string string
  | EvPlainClone string CloneOptions
  | EvPull string PullOptions
  | EvFileOpen string string
  | EvFileRead nat

text \<open>
  The struct \<open>GitArtifactReader\<close>: the secret provider's client and the artifact. The
  client is given by its answers: \<open>kubeClientset g n namespace name key\<close> is what
  \<open>GetSecrets(client, namespace, name, key)\<close> returns when the provider has answered \<open>n\<close>
  lookups before, so the secrets of the cluster may change from one lookup to the next.
\<close>

record GitArtifactReader =
  kubeClientset :: "nat \<Rightarrow> string \<Rightarrow> string \<Rightarrow> string \<Rightarrow> go_error + string"
  artifact :: GitArtifact

text \<open>
  The state a call of \<open>Read\<close> runs in: the receiver \<open>g\<close>, the number of lookups the
  secret provider has answered, the local disk (what
  \<open>ioutil.ReadFile\<close> finds, whether \<open>git.PlainOpen\<close> fails on a directory, the repository
  a directory holds), the SSH key parser, the remote side (what a clone with given
  options produces, what a pull does to a local repository) and the trace.
  A \<open>*git.Repository\<close> and a \<open>*git.Worktree\<close> are pointers into the disk: the directory.
\<close>

record world =
  reader :: GitArtifactReader
  lookups :: nat
  local_files :: "string \<Rightarrow> go_error + bytes"
  ParsePrivateKey :: "bytes \<Rightarrow> go_error + string"
  open_err :: "string \<Rightarrow> go_error option"
  repos :: "string \<Rightarrow> repository"
  remote_clone :: "string \<Rightarrow> CloneOptions \<Rightarrow> go_error + repository"
  remote_pull :: "repository \<Rightarrow> PullOptions \<Rightarrow> go_error option \<times> repository"
  trace :: "event list"

definition emit :: "event \<Rightarrow> world \<Rightarrow> world" where
  "emit e s = s\<lparr>trace := trace s @ [e]\<rparr>"

text \<open>
  Modelled from the spec: \<open>GetSecrets\<close> is a function of the package whose file is not among
  the sources. It is the specification's Secret Provider,
  \<open>getSecret(namespace, secretName, key) -> bytes, error\<close>: the answer is the one the
  client of the reader gives at this lookup, and the call is counted and recorded.
\<close>

definition GetSecrets :: "string \<Rightarrow> string \<Rightarrow> string \<Rightarrow> world \<Rightarrow> (go_error + string) \<times> world" where
  "GetSecrets namespace name key s =
     (kubeClientset (reader s) (lookups s) namespace name key,
      emit (EvGetSecrets namespace name key) (s\<lparr>lookups := Suc (lookups s)\<rparr>))"

definition ReadFile :: "string \<Rightarrow> world \<Rightarrow> (go_error + bytes) \<times> world" where
  "ReadFile filename s = (local_files s filename, emit (EvReadFile filename) s)"

text \<open>\<open>git.PlainOpen\<close> returns a nil repository together with every error.\<close>

definition PlainOpen :: "string \<Rightarrow> world \<Rightarrow> (string option \<times> go_error option) \<times> world" where
  "PlainOpen path s =
     ((case open_err s path of Some e \<Rightarrow> (None, Some e) | None \<Rightarrow> (Some path, None)),
      emit (EvPlainOpen path) s)"

text \<open>\<open>git.PlainClone(path, false, opts)\<close>: on success the directory holds the clone.\<close>

definition PlainClone :: "string \<Rightarrow> CloneOptions \<Rightarrow> world \<Rightarrow> (go_error + string) \<times> world" where
  "PlainClone path opts s =
     (case remote_clone s path opts of
        Inl e \<Rightarrow> (Inl e, emit (EvPlainClone path opts) s)
      | Inr c \<Rightarrow>
          (Inr path,
           emit (EvPlainClone path opts)
             (s\<lparr>repos := (repos s)(path := c), open_err := (open_err s)(path := None)\<rparr>)))"

definition repo_Worktree :: "string \<Rightarrow> world \<Rightarrow> (go_error + string) \<times> world" where
  "repo_Worktree r s =
     ((case worktree_fs (repos s r) of Inl e \<Rightarrow> Inl e | Inr _ \<Rightarrow> Inr r), emit (EvWorktree r) s)"

definition repo_Branch :: "string \<Rightarrow> string \<Rightarrow> world \<Rightarrow> (go_error + config_Branch) \<times> world" where
  "repo_Branch r name s = (cfg_Branches (repos s r) name, emit (EvBranch r name) s)"

definition repo_Tag :: "string \<Rightarrow> string \<Rightarrow> world \<Rightarrow> (go_error + Reference) \<times> world" where
  "repo_Tag r name s = (ref_Tags (repos s r) name, emit (EvTag r name) s)"

text \<open>\<open>w.Pull(opts)\<close>: the remote decides the error and the new local repository.\<close>

definition Pull :: "string \<Rightarrow> PullOptions \<Rightarrow> world \<Rightarrow> go_error option \<times> world" where
  "Pull w opts s =
     (fst (remote_pull s (repos s w) opts),
      emit (EvPull w opts) (s\<lparr>repos := (repos s)(w := snd (remote_pull s (repos s w) opts))\<rparr>))"

text \<open>\<open>w.Filesystem.Open(path)\<close>: the file, given by its content.\<close>

definition Filesystem_Open :: "string \<Rightarrow> string \<Rightarrow> world \<Rightarrow> (go_error + bytes) \<times> world" where
  "Filesystem_Open w path s =
     ((case worktree_fs (repos s w) of Inl e \<Rightarrow> Inl e | Inr fs \<Rightarrow> fs path),
      emit (EvFileOpen w path) s)"

text \<open>
  \<open>file.Read(p)\<close> on a file just opened, as \<open>os.File\<close> implements \<open>io.Reader\<close>: at most
  \<open>len(p)\<close> bytes are copied into \<open>p\<close>, whose length does not change; a read into an
  empty \<open>p\<close> returns \<open>0, nil\<close>; otherwise a read at the end of the file returns \<open>0, EOF\<close>.
  The result is the buffer afterwards, the count and the error.
\<close>

definition file_Read :: "bytes \<Rightarrow> bytes \<Rightarrow> world \<Rightarrow> (bytes \<times> nat \<times> go_error option) \<times> world" where
  "file_Read content p s =
     (if length p = 0 then ((p, 0, None), emit (EvFileRead 0) s)
      else if content = [] then ((p, 0, Some EOF), emit (EvFileRead 0) s)
      else ((take (min (length p) (length content)) content
               @ drop (min (length p) (length content)) p,
             min (length p) (length content), None),
            emit (EvFileRead (min (length p) (length content))) s))"

subsection \<open>store/git.go\<close>

definition getSSHKeyAuth :: "string \<Rightarrow> world \<Rightarrow> (error + AuthMethod option) \<times> world" where
  "getSSHKeyAuth privateSshKeyFile s =
     (case ReadFile privateSshKeyFile s of
        (Inl err, s1) \<Rightarrow> (Inl (SSHKeyInvalid ''read'' err), s1)
      | (Inr sshKey, s1) \<Rightarrow>
          (case ParsePrivateKey s1 sshKey of
             Inl err \<Rightarrow> (Inl (SSHKeyInvalid ''parse'' err), emit EvParsePrivateKey s1)
           | Inr signer \<Rightarrow> (Inr (Some (PublicKeys ''git'' signer)), emit EvParsePrivateKey s1)))"

definition getGitAuth :: "world \<Rightarrow> (error + AuthMethod option) \<times> world" where
  "getGitAuth s =
     (case Creds (artifact (reader s)) of
        Some creds \<Rightarrow>
          (case GetSecrets (Namespace (artifact (reader s)))
                  (Name (Username creds)) (Key (Username creds)) s of
             (Inl err, s1) \<Rightarrow> (Inl (SecretLookupFailed ''username'' err), s1)
           | (Inr username, s1) \<Rightarrow>
               (case GetSecrets (Namespace (artifact (reader s1)))
                       (Name (Password creds)) (Key (Password creds)) s1 of
                  (Inl err, s2) \<Rightarrow> (Inl (SecretLookupFailed ''password'' err), s2)
                | (Inr password, s2) \<Rightarrow> (Inr (Some (BasicAuth username password)), s2)))
      | None \<Rightarrow>
          if SSHKeyPath (artifact (reader s)) \<noteq> ''''
          then getSSHKeyAuth (SSHKeyPath (artifact (reader s))) s
          else (Inr None, s))"

text \<open>\<open>r.Branch\<close> and \<open>r.Tag\<close> read through \<open>r\<close>: on a nil \<open>r\<close> the call panics.\<close>

definition getBranchOrTag ::
    "string option \<Rightarrow> string \<Rightarrow> string \<Rightarrow> world \<Rightarrow> (error + string option) \<times> world" where
  "getBranchOrTag r branch tag s =
     (if branch \<noteq> '''' then
        (case r of
           None \<Rightarrow> (Inl NilPointerDereference, s)
         | Some rp \<Rightarrow>
             (case repo_Branch rp branch s of
                (Inl err, s1) \<Rightarrow> (Inl (BranchNotFound err), s1)
              | (Inr b, s1) \<Rightarrow> (Inr (Some (Merge b)), s1)))
      else if tag \<noteq> '''' then
        (case r of
           None \<Rightarrow> (Inl NilPointerDereference, s)
         | Some rp \<Rightarrow>
             (case repo_Tag rp tag s of
                (Inl err, s1) \<Rightarrow> (Inl (TagNotFound err), s1)
              | (Inr t, s1) \<Rightarrow> (Inr (Some (ref_Name t)), s1)))
      else (Inr None, s))"

text \<open>
  \<open>r.Worktree()\<close> reads through \<open>r\<close> as well. \<open>var data []byte\<close> is the nil slice: the
  buffer handed to \<open>file.Read\<close> is empty, and \<open>data\<close> is returned as the read leaves it.
\<close>

definition readFromRepository :: "string option \<Rightarrow> world \<Rightarrow> (error + bytes) \<times> world" where
  "readFromRepository r s =
     (case r of
        None \<Rightarrow> (Inl NilPointerDereference, s)
      | Some rp \<Rightarrow>
     (case repo_Worktree rp s of
        (Inl err, s1) \<Rightarrow> (Inl (WorktreeUnavailable err), s1)
      | (Inr w, s1) \<Rightarrow>
     (let pullOpts = \<lparr>pull_RemoteName = ''origin'', pull_ReferenceName = '''',
                       pull_RecurseSubmodules = DefaultSubmoduleRecursionDepth,
                       pull_Auth = None\<rparr> in
      case getGitAuth s1 of
        (Inl err, s2) \<Rightarrow> (Inl err, s2)
      | (Inr auth, s2) \<Rightarrow>
     (let pullOpts = (case auth of Some a \<Rightarrow> pullOpts\<lparr>pull_Auth := Some a\<rparr> | None \<Rightarrow> pullOpts) in
      case getBranchOrTag r (Branch (artifact (reader s2))) (Tag (artifact (reader s2))) s2 of
        (Inl err, s3) \<Rightarrow> (Inl err, s3)
      | (Inr refName, s3) \<Rightarrow>
     (let pullOpts = (case refName of Some n \<Rightarrow> pullOpts\<lparr>pull_ReferenceName := n\<rparr>
                                     | None \<Rightarrow> pullOpts) in
      case Pull w pullOpts s3 of
        (Some err, s4) \<Rightarrow> (Inl (PullFailed err), s4)
      | (None, s4) \<Rightarrow>
     (case Filesystem_Open w (FilePath (artifact (reader s4))) s4 of
        (Inl err, s5) \<Rightarrow> (Inl (FileOpenFailed err), s5)
      | (Inr file, s5) \<Rightarrow>
     (case file_Read file [] s5 of
        ((data, n, Some err), s6) \<Rightarrow> (Inl (FileReadFailed err), s6)
      | ((data, n, None), s6) \<Rightarrow> (Inr data, s6))))))))"

text \<open>
  In the clone path \<open>r\<close> is still the result of the failed \<open>git.PlainOpen\<close>; the \<open>r\<close> that
  \<open>git.PlainClone\<close> returns is a new variable of the inner block.
\<close>

definition Read :: "world \<Rightarrow> (error + bytes) \<times> world" where
  "Read s =
     (case PlainOpen (CloneDirectory (artifact (reader s))) s of
        ((r, None), s1) \<Rightarrow> readFromRepository r s1
      | ((r, Some err), s1) \<Rightarrow>
          if err = ErrRepositoryNotExists then
            (let cloneOpt = \<lparr>clone_URL = URL (artifact (reader s1)), clone_ReferenceName = '''',
                              clone_RecurseSubmodules = DefaultSubmoduleRecursionDepth,
                              clone_Auth = None\<rparr> in
             case getGitAuth s1 of
               (Inl err, s2) \<Rightarrow> (Inl err, s2)
             | (Inr auth, s2) \<Rightarrow>
            (let cloneOpt = (case auth of Some a \<Rightarrow> cloneOpt\<lparr>clone_Auth := Some a\<rparr>
                                        | None \<Rightarrow> cloneOpt) in
             case getBranchOrTag r (Branch (artifact (reader s2))) (Tag (artifact (reader s2))) s2 of
               (Inl err, s3) \<Rightarrow> (Inl err, s3)
             | (Inr refName, s3) \<Rightarrow>
            (let cloneOpt = (case refName of Some n \<Rightarrow> cloneOpt\<lparr>clone_ReferenceName := n\<rparr>
                                           | None \<Rightarrow> cloneOpt) in
             case PlainClone (CloneDirectory (artifact (reader s3))) cloneOpt s3 of
               (Inl err, s4) \<Rightarrow> (Inl (CloneFailed err), s4)
             | (Inr r, s4) \<Rightarrow> readFromRepository (Some r) s4)))
          else (Inl (RepositoryOpenFailed err), s1))"

subsection \<open>Observing a call\<close>

text \<open>The calls made between two states, and the kinds of call the claims speak of.\<close>

definition new_events :: "world \<Rightarrow> world \<Rightarrow> event list" where
  "new_events s s' = drop (length (trace s)) (trace s')"

fun is_clone :: "event \<Rightarrow> bool" where
  "is_clone (EvPlainClone _ _) = True"
| "is_clone _ = False"

fun is_pull :: "event \<Rightarrow> bool" where
  "is_pull (EvPull _ _) = True"
| "is_pull _ = False"

fun is_secret_lookup :: "event \<Rightarrow> bool" where
  "is_secret_lookup (EvGetSecrets _ _ _) = True"
| "is_secret_lookup _ = False"


fun is_ref_lookup :: "event \<Rightarrow> bool" where
  "is_ref_lookup (EvBranch _ _) = True"
| "is_ref_lookup (EvTag _ _) = True"
| "is_ref_lookup _ = False"


text \<open>The two components of authentication and reference resolution, and the options
  \<open>readFromRepository\<close> and \<open>Read\<close> build from their results.\<close>

definition auth_result :: "world \<Rightarrow> error + AuthMethod option" where
  "auth_result s = fst (getGitAuth s)"

definition auth_events :: "world \<Rightarrow> event list" where
  "auth_events s = new_events s (snd (getGitAuth s))"

definition auth_clock :: "world \<Rightarrow> nat" where
  "auth_clock s = lookups (snd (getGitAuth s))"

definition ref_result :: "string option \<Rightarrow> string \<Rightarrow> string \<Rightarrow> world \<Rightarrow> error + string option" where
  "ref_result r b t s = fst (getBranchOrTag r b t s)"

definition ref_events :: "string option \<Rightarrow> string \<Rightarrow> string \<Rightarrow> world \<Rightarrow> event list" where
  "ref_events r b t s = new_events s (snd (getBranchOrTag r b t s))"

definition pullOpts_of :: "AuthMethod option \<Rightarrow> string option \<Rightarrow> PullOptions" where
  "pullOpts_of auth refName =
     \<lparr>pull_RemoteName = ''origin'',
      pull_ReferenceName = (case refName of Some n \<Rightarrow> n | None \<Rightarrow> ''''),
      pull_RecurseSubmodules = DefaultSubmoduleRecursionDepth,
      pull_Auth = auth\<rparr>"

definition cloneOpt_of :: "string \<Rightarrow> AuthMethod option \<Rightarrow> string option \<Rightarrow> CloneOptions" where
  "cloneOpt_of url auth refName =
     \<lparr>clone_URL = url,
      clone_ReferenceName = (case refName of Some n \<Rightarrow> n | None \<Rightarrow> ''''),
      clone_RecurseSubmodules = DefaultSubmoduleRecursionDepth,
      clone_Auth = auth\<rparr>"

text \<open>What \<open>w.Filesystem.Open(path)\<close> finds in a repository.\<close>

definition opened_file :: "repository \<Rightarrow> string \<Rightarrow> go_error + bytes" where
  "opened_file c path = (case worktree_fs c of Inl e \<Rightarrow> Inl e | Inr fs \<Rightarrow> fs path)"

subsection \<open>A concrete world\<close>

text \<open>
  A checkout at a commit whose \<open>config.yaml\<close> has the given content, with a branch
  \<open>main\<close> tracking \<open>refs/heads/main\<close> and a tag \<open>v1\<close>.
\<close>

definition checkout :: "string \<Rightarrow> bytes \<Rightarrow> repository" where
  "checkout commit content =
     \<lparr>cfg_Branches = (\<lambda>name. if name = ''main''
          then Inr \<lparr>branch_Name = ''main'', branch_Remote = ''origin'', Merge = ''refs/heads/main''\<rparr>
          else Inl ErrBranchNotFound),
      ref_Tags = (\<lambda>name. if name = ''v1''
          then Inr \<lparr>ref_Name = ''refs/tags/v1'', ref_Hash = ''c1''\<rparr>
          else Inl ErrTagNotFound),
      worktree_fs = Inr (\<lambda>path. if path = ''config.yaml'' then Inr content
                                  else Inl (ErrOther ''file does not exist'')),
      HEAD = commit\<rparr>"

text \<open>
  The remote \<open>origin\<close> stands at commit \<open>c2\<close>. As go-git documents \<open>Worktree.Pull\<close>, a pull
  of a checkout that is already there returns \<open>NoErrAlreadyUpToDate\<close> and changes
  nothing; any other checkout is brought to \<open>c2\<close> and the pull returns nil.
\<close>

definition origin_pull :: "repository \<Rightarrow> PullOptions \<Rightarrow> go_error option \<times> repository" where
  "origin_pull c opts =
     (if HEAD c = ''c2'' then (Some NoErrAlreadyUpToDate, c)
      else (None, checkout ''c2'' ''replicas: 2''))"

definition origin_clone :: "string \<Rightarrow> CloneOptions \<Rightarrow> go_error + repository" where
  "origin_clone path opts = Inr (checkout ''c2'' ''replicas: 2'')"

definition example_artifact :: GitArtifact where
  "example_artifact =
     \<lparr>URL = ''https://example.com/repo.git'', CloneDirectory = ''/tmp/c1'', Creds = None,
      Namespace = ''argo-events'', SSHKeyPath = '''', FilePath = ''config.yaml'',
      Branch = '''', Tag = ''''\<rparr>"

definition example_creds :: GitCreds where
  "example_creds =
     \<lparr>Username = \<lparr>Name = ''git-creds'', Key = ''username''\<rparr>,
      Password = \<lparr>Name = ''git-creds'', Key = ''password''\<rparr>\<rparr>"

text \<open>
  A provider that answers every lookup alike: the secret \<open>git-creds\<close> of namespace
  \<open>argo-events\<close> has the keys \<open>username\<close> and \<open>password\<close>. And one that answers like it
  twice and cannot be reached from then on.
\<close>

definition steady_client :: "nat \<Rightarrow> string \<Rightarrow> string \<Rightarrow> string \<Rightarrow> go_error + string" where
  "steady_client n namespace name key =
     (if namespace = ''argo-events'' \<and> name = ''git-creds'' \<and> key = ''username''
      then Inr ''alice''
      else if namespace = ''argo-events'' \<and> name = ''git-creds'' \<and> key = ''password''
      then Inr ''s3cret''
      else Inl (ErrOther ''secret not found''))"

definition expiring_client :: "nat \<Rightarrow> string \<Rightarrow> string \<Rightarrow> string \<Rightarrow> go_error + string" where
  "expiring_client n namespace name key =
     (if n < 2 then steady_client n namespace name key
      else Inl (ErrOther ''connection refused''))"

text \<open>
  The world of the examples, for a client and an artifact: no lookup has been answered;
  \<open>/keys/id_rsa\<close> is a private key; \<open>/tmp/c1\<close> holds a checkout of commit
  \<open>c1\<close>, \<open>/tmp/c2\<close> one of commit \<open>c2\<close>, \<open>/tmp/locked\<close> cannot be opened, and no other
  directory holds a repository.
\<close>

definition world_of ::
    "(nat \<Rightarrow> string \<Rightarrow> string \<Rightarrow> string \<Rightarrow> go_error + string) \<Rightarrow> GitArtifact \<Rightarrow> world" where
  "world_of client a =
     \<lparr>reader = \<lparr>kubeClientset = client, artifact = a\<rparr>,
      lookups = 0,
      local_files = (\<lambda>path. if path = ''/keys/id_rsa'' then Inr ''PRIVATE KEY''
                              else Inl (ErrOther ''no such file'')),
      ParsePrivateKey = (\<lambda>key. if key = ''PRIVATE KEY'' then Inr ''signer''
                                 else Inl (ErrOther ''no key found'')),
      open_err = (\<lambda>dir. if dir = ''/tmp/c1'' \<or> dir = ''/tmp/c2'' then None
                          else if dir = ''/tmp/locked'' then Some (ErrOther ''permission denied'')
                          else Some ErrRepositoryNotExists),
      repos = (\<lambda>dir. if dir = ''/tmp/c2'' then checkout ''c2'' ''replicas: 2''
                       else checkout ''c1'' ''replicas: 1''),
      remote_clone = origin_clone,
      remote_pull = origin_pull,
      trace = []\<rparr>"

definition example_world :: "GitArtifact \<Rightarrow> world" where
  "example_world a = world_of steady_client a"

section \<open>Authentication and reference resolution only extend the trace\<close>

lemma getGitAuth_eq:
  "getGitAuth s = (auth_result s, s\<lparr>lookups := auth_clock s, trace := trace s @ auth_events s\<rparr>)"
  by (simp add: auth_result_def auth_events_def auth_clock_def new_events_def getGitAuth_def
      getSSHKeyAuth_def
      GetSecrets_def ReadFile_def emit_def split: option.splits sum.splits)

lemma getBranchOrTag_eq:
  "getBranchOrTag r b t s = (ref_result r b t s, s\<lparr>trace := trace s @ ref_events r b t s\<rparr>)"
  by (simp add: ref_result_def ref_events_def new_events_def getBranchOrTag_def
      repo_Branch_def repo_Tag_def emit_def split: option.splits sum.splits)

lemma auth_result_cong:
  "reader s' = reader s \<Longrightarrow> lookups s' = lookups s \<Longrightarrow> local_files s' = local_files s \<Longrightarrow>
   ParsePrivateKey s' = ParsePrivateKey s \<Longrightarrow> auth_result s' = auth_result s"
  by (simp add: auth_result_def getGitAuth_def getSSHKeyAuth_def
      GetSecrets_def ReadFile_def emit_def split: option.splits sum.splits)

lemma auth_events_cong:
  "reader s' = reader s \<Longrightarrow> lookups s' = lookups s \<Longrightarrow> local_files s' = local_files s \<Longrightarrow>
   ParsePrivateKey s' = ParsePrivateKey s \<Longrightarrow> auth_events s' = auth_events s"
  by (simp add: auth_events_def new_events_def getGitAuth_def getSSHKeyAuth_def
      GetSecrets_def ReadFile_def emit_def split: option.splits sum.splits)

lemma auth_clock_cong:
  "reader s' = reader s \<Longrightarrow> lookups s' = lookups s \<Longrightarrow> local_files s' = local_files s \<Longrightarrow>
   ParsePrivateKey s' = ParsePrivateKey s \<Longrightarrow> auth_clock s' = auth_clock s"
  by (simp add: auth_clock_def getGitAuth_def getSSHKeyAuth_def
      GetSecrets_def ReadFile_def emit_def split: option.splits sum.splits)

lemma ref_result_cong:
  "repos s' = repos s \<Longrightarrow> ref_result r b t s' = ref_result r b t s"
  by (simp add: ref_result_def getBranchOrTag_def
      repo_Branch_def repo_Tag_def emit_def split: option.splits sum.splits)

lemma ref_events_cong:
  "repos s' = repos s \<Longrightarrow> ref_events r b t s' = ref_events r b t s"
  by (simp add: ref_events_def new_events_def getBranchOrTag_def
      repo_Branch_def repo_Tag_def emit_def split: option.splits sum.splits)

lemma auth_result_upd [simp]:
  "auth_result (s\<lparr>trace := t\<rparr>) = auth_result s"
  "auth_result (s\<lparr>repos := rs\<rparr>) = auth_result s"
  "auth_result (s\<lparr>open_err := oe\<rparr>) = auth_result s"
  by (rule auth_result_cong; simp)+

lemma auth_events_upd [simp]:
  "auth_events (s\<lparr>trace := t\<rparr>) = auth_events s"
  "auth_events (s\<lparr>repos := rs\<rparr>) = auth_events s"
  "auth_events (s\<lparr>open_err := oe\<rparr>) = auth_events s"
  by (rule auth_events_cong; simp)+

lemma auth_clock_upd [simp]:
  "auth_clock (s\<lparr>trace := t\<rparr>) = auth_clock s"
  "auth_clock (s\<lparr>repos := rs\<rparr>) = auth_clock s"
  "auth_clock (s\<lparr>open_err := oe\<rparr>) = auth_clock s"
  by (rule auth_clock_cong; simp)+

lemma ref_result_upd [simp]:
  "ref_result r b t (s\<lparr>trace := tr\<rparr>) = ref_result r b t s"
  "ref_result r b t (s\<lparr>open_err := oe\<rparr>) = ref_result r b t s"
  "ref_result r b t (s\<lparr>lookups := n\<rparr>) = ref_result r b t s"
  by (rule ref_result_cong; simp)+

lemma ref_events_upd [simp]:
  "ref_events r b t (s\<lparr>trace := tr\<rparr>) = ref_events r b t s"
  "ref_events r b t (s\<lparr>open_err := oe\<rparr>) = ref_events r b t s"
  "ref_events r b t (s\<lparr>lookups := n\<rparr>) = ref_events r b t s"
  by (rule ref_events_cong; simp)+

lemma ref_result_nil:
  "ref_result None b t s = (if b \<noteq> '''' \<or> t \<noteq> '''' then Inl NilPointerDereference else Inr None)"
  by (simp add: ref_result_def getBranchOrTag_def)

lemma ref_events_nil: "ref_events None b t s = []"
  by (simp add: ref_events_def new_events_def getBranchOrTag_def)

section \<open>The paths of \<open>readFromRepository\<close>\<close>

lemma rfr_nil: "readFromRepository None s = (Inl NilPointerDereference, s)"
  by (simp add: readFromRepository_def)

lemma rfr_worktree_fail:
  "worktree_fs (repos s rp) = Inl e \<Longrightarrow>
   readFromRepository (Some rp) s =
     (Inl (WorktreeUnavailable e), s\<lparr>trace := trace s @ [EvWorktree rp]\<rparr>)"
  by (simp add: readFromRepository_def repo_Worktree_def emit_def)

lemma rfr_auth_fail:
  "worktree_fs (repos s rp) = Inr fs \<Longrightarrow> auth_result s = Inl err \<Longrightarrow>
   readFromRepository (Some rp) s =
     (Inl err, s\<lparr>lookups := auth_clock s, trace := trace s @ EvWorktree rp # auth_events s\<rparr>)"
  by (simp add: readFromRepository_def repo_Worktree_def emit_def getGitAuth_eq Let_def)

lemma rfr_ref_fail:
  "worktree_fs (repos s rp) = Inr fs \<Longrightarrow> auth_result s = Inr auth \<Longrightarrow>
   ref_result (Some rp) (Branch (artifact (reader s))) (Tag (artifact (reader s))) s = Inl err \<Longrightarrow>
   readFromRepository (Some rp) s =
     (Inl err, s\<lparr>lookups := auth_clock s, trace := trace s @ EvWorktree rp # auth_events s
         @ ref_events (Some rp) (Branch (artifact (reader s))) (Tag (artifact (reader s))) s\<rparr>)"
  by (simp add: readFromRepository_def repo_Worktree_def emit_def getGitAuth_eq getBranchOrTag_eq
        Let_def)

lemma rfr_pull_fail:
  "worktree_fs (repos s rp) = Inr fs \<Longrightarrow> auth_result s = Inr auth \<Longrightarrow>
   ref_result (Some rp) (Branch (artifact (reader s))) (Tag (artifact (reader s))) s = Inr refName \<Longrightarrow>
   fst (remote_pull s (repos s rp) (pullOpts_of auth refName)) = Some err \<Longrightarrow>
   readFromRepository (Some rp) s =
     (Inl (PullFailed err),
      s\<lparr>lookups := auth_clock s, trace := trace s @ EvWorktree rp # auth_events s
         @ ref_events (Some rp) (Branch (artifact (reader s))) (Tag (artifact (reader s))) s
         @ [EvPull rp (pullOpts_of auth refName)],
        repos := (repos s)(rp := snd (remote_pull s (repos s rp) (pullOpts_of auth refName)))\<rparr>)"
  by (cases auth; cases refName)
     (simp_all add: readFromRepository_def repo_Worktree_def emit_def getGitAuth_eq
        getBranchOrTag_eq Pull_def Let_def pullOpts_of_def)

lemma rfr_pulled:
  "worktree_fs (repos s rp) = Inr fs \<Longrightarrow> auth_result s = Inr auth \<Longrightarrow>
   ref_result (Some rp) (Branch (artifact (reader s))) (Tag (artifact (reader s))) s = Inr refName \<Longrightarrow>
   fst (remote_pull s (repos s rp) (pullOpts_of auth refName)) = None \<Longrightarrow>
   readFromRepository (Some rp) s =
     ((case opened_file (snd (remote_pull s (repos s rp) (pullOpts_of auth refName)))
              (FilePath (artifact (reader s))) of
         Inl e \<Rightarrow> Inl (FileOpenFailed e)
       | Inr content \<Rightarrow> Inr []),
      s\<lparr>lookups := auth_clock s, trace := trace s @ EvWorktree rp # auth_events s
         @ ref_events (Some rp) (Branch (artifact (reader s))) (Tag (artifact (reader s))) s
         @ EvPull rp (pullOpts_of auth refName) # EvFileOpen rp (FilePath (artifact (reader s)))
         # (case opened_file (snd (remote_pull s (repos s rp) (pullOpts_of auth refName)))
                   (FilePath (artifact (reader s))) of
              Inl e \<Rightarrow> []
            | Inr content \<Rightarrow> [EvFileRead 0]),
        repos := (repos s)(rp := snd (remote_pull s (repos s rp) (pullOpts_of auth refName)))\<rparr>)"
  by (cases auth; cases refName)
     (simp_all add: readFromRepository_def repo_Worktree_def emit_def getGitAuth_eq
        getBranchOrTag_eq Pull_def Filesystem_Open_def file_Read_def Let_def pullOpts_of_def
        opened_file_def split: sum.splits)

text \<open>Every call of \<open>readFromRepository\<close> takes one of these paths.\<close>

lemma rfr_cases:
  "(r = None \<and> readFromRepository r s = (Inl NilPointerDereference, s))
   \<or> (\<exists>rp e. r = Some rp \<and> worktree_fs (repos s rp) = Inl e \<and>
        readFromRepository r s =
          (Inl (WorktreeUnavailable e), s\<lparr>trace := trace s @ [EvWorktree rp]\<rparr>))
   \<or> (\<exists>rp fs err. r = Some rp \<and> worktree_fs (repos s rp) = Inr fs \<and> auth_result s = Inl err \<and>
        readFromRepository r s =
          (Inl err, s\<lparr>lookups := auth_clock s, trace := trace s @ EvWorktree rp # auth_events s\<rparr>))
   \<or> (\<exists>rp fs auth err. r = Some rp \<and> worktree_fs (repos s rp) = Inr fs \<and> auth_result s = Inr auth \<and>
        ref_result r (Branch (artifact (reader s))) (Tag (artifact (reader s))) s = Inl err \<and>
        readFromRepository r s =
          (Inl err, s\<lparr>lookups := auth_clock s, trace := trace s @ EvWorktree rp # auth_events s
             @ ref_events r (Branch (artifact (reader s))) (Tag (artifact (reader s))) s\<rparr>))
   \<or> (\<exists>rp fs auth refName err. r = Some rp \<and> worktree_fs (repos s rp) = Inr fs \<and>
        auth_result s = Inr auth \<and>
        ref_result r (Branch (artifact (reader s))) (Tag (artifact (reader s))) s = Inr refName \<and>
        fst (remote_pull s (repos s rp) (pullOpts_of auth refName)) = Some err \<and>
        readFromRepository r s =
          (Inl (PullFailed err),
           s\<lparr>lookups := auth_clock s, trace := trace s @ EvWorktree rp # auth_events s
             @ ref_events r (Branch (artifact (reader s))) (Tag (artifact (reader s))) s
             @ [EvPull rp (pullOpts_of auth refName)],
             repos := (repos s)(rp := snd (remote_pull s (repos s rp) (pullOpts_of auth refName)))\<rparr>))
   \<or> (\<exists>rp fs auth refName. r = Some rp \<and> worktree_fs (repos s rp) = Inr fs \<and>
        auth_result s = Inr auth \<and>
        ref_result r (Branch (artifact (reader s))) (Tag (artifact (reader s))) s = Inr refName \<and>
        fst (remote_pull s (repos s rp) (pullOpts_of auth refName)) = None \<and>
        readFromRepository r s =
          ((case opened_file (snd (remote_pull s (repos s rp) (pullOpts_of auth refName)))
                   (FilePath (artifact (reader s))) of
              Inl e \<Rightarrow> Inl (FileOpenFailed e)
            | Inr content \<Rightarrow> Inr []),
           s\<lparr>lookups := auth_clock s, trace := trace s @ EvWorktree rp # auth_events s
             @ ref_events r (Branch (artifact (reader s))) (Tag (artifact (reader s))) s
             @ EvPull rp (pullOpts_of auth refName) # EvFileOpen rp (FilePath (artifact (reader s)))
             # (case opened_file (snd (remote_pull s (repos s rp) (pullOpts_of auth refName)))
                       (FilePath (artifact (reader s))) of
                  Inl e \<Rightarrow> []
                | Inr content \<Rightarrow> [EvFileRead 0]),
             repos := (repos s)(rp := snd (remote_pull s (repos s rp) (pullOpts_of auth refName)))\<rparr>))"
proof (cases r)
  case None
  then show ?thesis by (simp add: rfr_nil)
next
  case (Some rp)
  show ?thesis
  proof (cases "worktree_fs (repos s rp)")
    case (Inl e)
    then show ?thesis using Some by (simp add: rfr_worktree_fail)
  next
    case fs: (Inr fs)
    show ?thesis
    proof (cases "auth_result s")
      case (Inl err)
      then show ?thesis using Some fs by (simp add: rfr_auth_fail)
    next
      case auth: (Inr auth)
      show ?thesis
      proof (cases "ref_result (Some rp) (Branch (artifact (reader s))) (Tag (artifact (reader s))) s")
        case (Inl err)
        then show ?thesis using Some fs auth by (simp add: rfr_ref_fail)
      next
        case rn: (Inr refName)
        show ?thesis
        proof (cases "fst (remote_pull s (repos s rp) (pullOpts_of auth refName))")
          case (Some err)
          then show ?thesis using \<open>r = Some rp\<close> fs auth rn rfr_pull_fail[OF fs auth rn Some]
            by simp
        next
          case None
          then show ?thesis using \<open>r = Some rp\<close> fs auth rn rfr_pulled[OF fs auth rn None]
            by simp
        qed
      qed
    qed
  qed
qed

section \<open>The paths of \<open>Read\<close>\<close>

lemma Read_open_fail:
  "open_err s (CloneDirectory (artifact (reader s))) = Some e \<Longrightarrow> e \<noteq> ErrRepositoryNotExists \<Longrightarrow>
   Read s = (Inl (RepositoryOpenFailed e),
             s\<lparr>trace := trace s @ [EvPlainOpen (CloneDirectory (artifact (reader s)))]\<rparr>)"
  by (simp add: Read_def PlainOpen_def emit_def)

lemma Read_open_ok:
  "open_err s (CloneDirectory (artifact (reader s))) = None \<Longrightarrow>
   Read s = readFromRepository (Some (CloneDirectory (artifact (reader s))))
             (s\<lparr>trace := trace s @ [EvPlainOpen (CloneDirectory (artifact (reader s)))]\<rparr>)"
  by (simp add: Read_def PlainOpen_def emit_def)

lemma Read_clone_auth_fail:
  "open_err s (CloneDirectory (artifact (reader s))) = Some ErrRepositoryNotExists \<Longrightarrow>
   auth_result s = Inl err \<Longrightarrow>
   Read s = (Inl err,
             s\<lparr>lookups := auth_clock s, trace := trace s @ EvPlainOpen (CloneDirectory (artifact (reader s))) # auth_events s\<rparr>)"
  by (simp add: Read_def PlainOpen_def emit_def getGitAuth_eq Let_def)

lemma Read_clone_nil_deref:
  "open_err s (CloneDirectory (artifact (reader s))) = Some ErrRepositoryNotExists \<Longrightarrow>
   auth_result s = Inr auth \<Longrightarrow>
   Branch (artifact (reader s)) \<noteq> '''' \<or> Tag (artifact (reader s)) \<noteq> '''' \<Longrightarrow>
   Read s = (Inl NilPointerDereference,
             s\<lparr>lookups := auth_clock s, trace := trace s @ EvPlainOpen (CloneDirectory (artifact (reader s))) # auth_events s\<rparr>)"
  by (simp add: Read_def PlainOpen_def emit_def getGitAuth_eq getBranchOrTag_eq ref_result_nil
        ref_events_nil Let_def)

lemma Read_clone_fail:
  "open_err s (CloneDirectory (artifact (reader s))) = Some ErrRepositoryNotExists \<Longrightarrow>
   auth_result s = Inr auth \<Longrightarrow>
   Branch (artifact (reader s)) = '''' \<Longrightarrow> Tag (artifact (reader s)) = '''' \<Longrightarrow>
   remote_clone s (CloneDirectory (artifact (reader s)))
      (cloneOpt_of (URL (artifact (reader s))) auth None) = Inl e \<Longrightarrow>
   Read s = (Inl (CloneFailed e),
             s\<lparr>lookups := auth_clock s, trace := trace s @ EvPlainOpen (CloneDirectory (artifact (reader s))) # auth_events s
                @ [EvPlainClone (CloneDirectory (artifact (reader s)))
                     (cloneOpt_of (URL (artifact (reader s))) auth None)]\<rparr>)"
  by (cases auth)
     (simp_all add: Read_def PlainOpen_def PlainClone_def emit_def getGitAuth_eq getBranchOrTag_eq
        ref_result_nil ref_events_nil Let_def cloneOpt_of_def)

lemma Read_clone_ok:
  "open_err s (CloneDirectory (artifact (reader s))) = Some ErrRepositoryNotExists \<Longrightarrow>
   auth_result s = Inr auth \<Longrightarrow>
   Branch (artifact (reader s)) = '''' \<Longrightarrow> Tag (artifact (reader s)) = '''' \<Longrightarrow>
   remote_clone s (CloneDirectory (artifact (reader s)))
      (cloneOpt_of (URL (artifact (reader s))) auth None) = Inr c \<Longrightarrow>
   Read s = readFromRepository (Some (CloneDirectory (artifact (reader s))))
             (s\<lparr>lookups := auth_clock s, repos := (repos s)(CloneDirectory (artifact (reader s)) := c),
               open_err := (open_err s)(CloneDirectory (artifact (reader s)) := None),
               trace := trace s @ EvPlainOpen (CloneDirectory (artifact (reader s))) # auth_events s
                @ [EvPlainClone (CloneDirectory (artifact (reader s)))
                     (cloneOpt_of (URL (artifact (reader s))) auth None)]\<rparr>)"
  by (cases auth)
     (simp_all add: Read_def PlainOpen_def PlainClone_def emit_def getGitAuth_eq getBranchOrTag_eq
        ref_result_nil ref_events_nil Let_def cloneOpt_of_def)

text \<open>Every call of \<open>Read\<close> takes one of these paths.\<close>

lemma Read_cases:
  "(\<exists>e. open_err s (CloneDirectory (artifact (reader s))) = Some e \<and> e \<noteq> ErrRepositoryNotExists \<and>
       Read s = (Inl (RepositoryOpenFailed e),
                 s\<lparr>trace := trace s @ [EvPlainOpen (CloneDirectory (artifact (reader s)))]\<rparr>))
   \<or> (open_err s (CloneDirectory (artifact (reader s))) = None \<and>
       Read s = readFromRepository (Some (CloneDirectory (artifact (reader s))))
                 (s\<lparr>trace := trace s @ [EvPlainOpen (CloneDirectory (artifact (reader s)))]\<rparr>))
   \<or> (\<exists>err. open_err s (CloneDirectory (artifact (reader s))) = Some ErrRepositoryNotExists \<and>
       auth_result s = Inl err \<and>
       Read s = (Inl err,
                 s\<lparr>lookups := auth_clock s, trace := trace s @ EvPlainOpen (CloneDirectory (artifact (reader s)))
                          # auth_events s\<rparr>))
   \<or> (\<exists>auth. open_err s (CloneDirectory (artifact (reader s))) = Some ErrRepositoryNotExists \<and>
       auth_result s = Inr auth \<and>
       (Branch (artifact (reader s)) \<noteq> '''' \<or> Tag (artifact (reader s)) \<noteq> '''') \<and>
       Read s = (Inl NilPointerDereference,
                 s\<lparr>lookups := auth_clock s, trace := trace s @ EvPlainOpen (CloneDirectory (artifact (reader s)))
                          # auth_events s\<rparr>))
   \<or> (\<exists>auth e. open_err s (CloneDirectory (artifact (reader s))) = Some ErrRepositoryNotExists \<and>
       auth_result s = Inr auth \<and>
       Branch (artifact (reader s)) = '''' \<and> Tag (artifact (reader s)) = '''' \<and>
       Read s = (Inl (CloneFailed e),
                 s\<lparr>lookups := auth_clock s, trace := trace s @ EvPlainOpen (CloneDirectory (artifact (reader s)))
                    # auth_events s
                    @ [EvPlainClone (CloneDirectory (artifact (reader s)))
                         (cloneOpt_of (URL (artifact (reader s))) auth None)]\<rparr>))
   \<or> (\<exists>auth c. open_err s (CloneDirectory (artifact (reader s))) = Some ErrRepositoryNotExists \<and>
       auth_result s = Inr auth \<and>
       Branch (artifact (reader s)) = '''' \<and> Tag (artifact (reader s)) = '''' \<and>
       Read s = readFromRepository (Some (CloneDirectory (artifact (reader s))))
             (s\<lparr>lookups := auth_clock s, repos := (repos s)(CloneDirectory (artifact (reader s)) := c),
               open_err := (open_err s)(CloneDirectory (artifact (reader s)) := None),
               trace := trace s @ EvPlainOpen (CloneDirectory (artifact (reader s))) # auth_events s
                @ [EvPlainClone (CloneDirectory (artifact (reader s)))
                     (cloneOpt_of (URL (artifact (reader s))) auth None)]\<rparr>))"
proof (cases "open_err s (CloneDirectory (artifact (reader s)))")
  case None
  then show ?thesis by (simp add: Read_open_ok)
next
  case (Some e)
  show ?thesis
  proof (cases "e = ErrRepositoryNotExists")
    case False
    then show ?thesis using Some by (simp add: Read_open_fail)
  next
    case True
    with Some have absent: "open_err s (CloneDirectory (artifact (reader s))) = Some ErrRepositoryNotExists"
      by simp
    show ?thesis
    proof (cases "auth_result s")
      case (Inl err)
      then show ?thesis using absent by (simp add: Read_clone_auth_fail)
    next
      case auth: (Inr auth)
      show ?thesis
      proof (cases "Branch (artifact (reader s)) \<noteq> '''' \<or> Tag (artifact (reader s)) \<noteq> ''''")
        case True
        then show ?thesis using absent auth Read_clone_nil_deref[OF absent auth True] by simp
      next
        case False
        then have b: "Branch (artifact (reader s)) = ''''" and t: "Tag (artifact (reader s)) = ''''"
          by simp_all
        show ?thesis
        proof (cases "remote_clone s (CloneDirectory (artifact (reader s)))
                        (cloneOpt_of (URL (artifact (reader s))) auth None)")
          case (Inl e')
          then show ?thesis using absent auth b t Read_clone_fail[OF absent auth b t Inl] by simp
        next
          case (Inr c)
          have "\<exists>c'. Read s = readFromRepository (Some (CloneDirectory (artifact (reader s))))
             (s\<lparr>lookups := auth_clock s, repos := (repos s)(CloneDirectory (artifact (reader s)) := c'),
               open_err := (open_err s)(CloneDirectory (artifact (reader s)) := None),
               trace := trace s @ EvPlainOpen (CloneDirectory (artifact (reader s))) # auth_events s
                @ [EvPlainClone (CloneDirectory (artifact (reader s)))
                     (cloneOpt_of (URL (artifact (reader s))) auth None)]\<rparr>)"
            using Read_clone_ok[OF absent auth b t Inr] by (rule exI)
          then show ?thesis using absent auth b t by simp
        qed
      qed
    qed
  qed
qed

section \<open>What the paths have in common\<close>

lemma auth_events_class:
  "filter (\<lambda>e. is_clone e \<or> is_pull e) (auth_events s) = []"
  "filter is_ref_lookup (auth_events s) = []"
  by (simp_all add: auth_events_def new_events_def getGitAuth_def getSSHKeyAuth_def
      GetSecrets_def ReadFile_def emit_def split: option.splits sum.splits)

lemma ref_events_class:
  "filter (\<lambda>e. is_clone e \<or> is_pull e) (ref_events r b t s) = []"
  "filter is_secret_lookup (ref_events r b t s) = []"
  by (simp_all add: ref_events_def new_events_def getBranchOrTag_def
      repo_Branch_def repo_Tag_def emit_def split: option.splits sum.splits)

lemma rfr_reader: "reader (snd (readFromRepository r s)) = reader s"
  using rfr_cases[of r s] by auto

lemma Read_reader: "reader (snd (Read s)) = reader s"
  using Read_cases[of s] by (auto simp: rfr_reader)

lemma rfr_no_clone: "filter is_clone (new_events s (snd (readFromRepository r s))) = []"
  using rfr_cases[of r s] auth_events_class(1)[of s]
    ref_events_class(1)[of r "Branch (artifact (reader s))" "Tag (artifact (reader s))" s]
  by (auto simp: new_events_def filter_empty_conv split: sum.splits)

lemma rfr_trace: "trace (snd (readFromRepository r s)) = trace s @ new_events s (snd (readFromRepository r s))"
  using rfr_cases[of r s] by (auto simp: new_events_def)

section \<open>Unfolding the model on a concrete world\<close>

lemmas model_defs = Read_def readFromRepository_def getBranchOrTag_def getGitAuth_def getSSHKeyAuth_def
  emit_def GetSecrets_def ReadFile_def PlainOpen_def PlainClone_def repo_Worktree_def
  repo_Branch_def repo_Tag_def Pull_def Filesystem_Open_def file_Read_def Let_def

lemmas world_defs = example_world_def world_of_def steady_client_def expiring_client_def
  example_artifact_def example_creds_def checkout_def origin_pull_def origin_clone_def

section \<open>Secret lookups\<close>

lemma auth_basic_result:
  "Creds (artifact (reader s)) = Some creds \<Longrightarrow>
   auth_result s =
     (case kubeClientset (reader s) (lookups s) (Namespace (artifact (reader s)))
             (Name (Username creds)) (Key (Username creds)) of
        Inl e \<Rightarrow> Inl (SecretLookupFailed ''username'' e)
      | Inr u \<Rightarrow>
          (case kubeClientset (reader s) (Suc (lookups s)) (Namespace (artifact (reader s)))
                  (Name (Password creds)) (Key (Password creds)) of
             Inl e \<Rightarrow> Inl (SecretLookupFailed ''password'' e)
           | Inr p \<Rightarrow> Inr (Some (BasicAuth u p))))"
  by (simp add: auth_result_def getGitAuth_def GetSecrets_def emit_def split: sum.splits)


lemma auth_basic_clock:
  "Creds (artifact (reader s)) = Some creds \<Longrightarrow>
   auth_clock s =
     (case kubeClientset (reader s) (lookups s) (Namespace (artifact (reader s)))
             (Name (Username creds)) (Key (Username creds)) of
        Inl e \<Rightarrow> Suc (lookups s)
      | Inr u \<Rightarrow> Suc (Suc (lookups s)))"
  by (simp add: auth_clock_def getGitAuth_def GetSecrets_def emit_def split: sum.splits)

lemma new_events_rfr:
  assumes "trace s' = trace s @ xs"
  shows "new_events s (snd (readFromRepository r s'))
         = xs @ new_events s' (snd (readFromRepository r s'))"
proof -
  have "trace (snd (readFromRepository r s'))
        = trace s @ (xs @ new_events s' (snd (readFromRepository r s')))"
    using rfr_trace[of r s'] assms by simp
  then show ?thesis
    unfolding new_events_def[of s] by simp
qed

section \<open>A branch the repository does not know\<close>

lemma ref_result_branch:
  "b \<noteq> '''' \<Longrightarrow>
   ref_result (Some rp) b t s =
     (case cfg_Branches (repos s rp) b of
        Inl err \<Rightarrow> Inl (BranchNotFound err)
      | Inr c \<Rightarrow> Inr (Some (Merge c)))"
  by (simp add: ref_result_def getBranchOrTag_def repo_Branch_def emit_def split: sum.splits)

lemma rfr_missing_branch:
  assumes b: "Branch (artifact (reader s)) \<noteq> ''''"
      and absent: "cfg_Branches (repos s rp) (Branch (artifact (reader s))) = Inl e"
  shows "isl (fst (readFromRepository (Some rp) s)) \<and>
         filter (\<lambda>ev. is_clone ev \<or> is_pull ev) (new_events s (snd (readFromRepository (Some rp) s))) = [] \<and>
         (\<forall>fs auth. worktree_fs (repos s rp) = Inr fs \<and> auth_result s = Inr auth
            \<longrightarrow> fst (readFromRepository (Some rp) s) = Inl (BranchNotFound e))"
  using rfr_cases[of "Some rp" s] ref_result_branch[OF b, of rp "Tag (artifact (reader s))" s] absent
    auth_events_class(1)[of s]
    ref_events_class(1)[of "Some rp" "Branch (artifact (reader s))" "Tag (artifact (reader s))" s]
  by (auto simp: new_events_def)

section \<open>No call returns any byte\<close>

lemma rfr_returns_empty: "fst (readFromRepository r s) = Inr data \<Longrightarrow> data = []"
  using rfr_cases[of r s] by (auto split: sum.splits)

lemma Read_returns_empty: "fst (Read s) = Inr data \<Longrightarrow> data = []"
  using Read_cases[of s] by (auto dest: rfr_returns_empty)

section \<open>When authentication fails\<close>

text \<open>In the first resolution of a call, whatever the credential source.\<close>

lemma Read_auth_fails:
  assumes "auth_result s = Inl err"
  shows "filter (\<lambda>ev. is_clone ev \<or> is_pull ev) (new_events s (snd (Read s))) = [] \<and>
         (\<forall>e'. open_err s (CloneDirectory (artifact (reader s))) = Some e' \<and> e' \<noteq> ErrRepositoryNotExists
               \<longrightarrow> fst (Read s) = Inl (RepositoryOpenFailed e')) \<and>
         (\<forall>e'. open_err s (CloneDirectory (artifact (reader s))) = None \<and>
               worktree_fs (repos s (CloneDirectory (artifact (reader s)))) = Inl e'
               \<longrightarrow> fst (Read s) = Inl (WorktreeUnavailable e')) \<and>
         (\<forall>fs. open_err s (CloneDirectory (artifact (reader s))) = None \<and>
               worktree_fs (repos s (CloneDirectory (artifact (reader s)))) = Inr fs
               \<longrightarrow> fst (Read s) = Inl err) \<and>
         (open_err s (CloneDirectory (artifact (reader s))) = Some ErrRepositoryNotExists
               \<longrightarrow> fst (Read s) = Inl err)"
proof (cases "open_err s (CloneDirectory (artifact (reader s)))")
  case None
  show ?thesis
  proof (cases "worktree_fs (repos s (CloneDirectory (artifact (reader s))))")
    case (Inl e')
    then show ?thesis
      using None
        rfr_worktree_fail[of "s\<lparr>trace := trace s @ [EvPlainOpen (CloneDirectory (artifact (reader s)))]\<rparr>"
          "CloneDirectory (artifact (reader s))" e']
      by (simp add: Read_open_ok new_events_def)
  next
    case (Inr fs)
    then show ?thesis
      using None assms auth_events_class(1)[of s]
        rfr_auth_fail[of "s\<lparr>trace := trace s @ [EvPlainOpen (CloneDirectory (artifact (reader s)))]\<rparr>"
          "CloneDirectory (artifact (reader s))" fs err]
      by (simp add: Read_open_ok new_events_def)
  qed
next
  case (Some e)
  show ?thesis
  proof (cases "e = ErrRepositoryNotExists")
    case True
    then show ?thesis
      using Some assms auth_events_class(1)[of s] Read_clone_auth_fail[of s err]
      by (simp add: new_events_def)
  next
    case False
    then show ?thesis
      using Some Read_open_fail[of s e] by (simp add: new_events_def)
  qed
qed

text \<open>In the second resolution, after a clone.\<close>

lemma Read_second_auth_fails:
  assumes absent: "open_err s (CloneDirectory (artifact (reader s))) = Some ErrRepositoryNotExists"
      and first: "auth_result s = Inr auth"
      and b: "Branch (artifact (reader s)) = ''''" and t: "Tag (artifact (reader s)) = ''''"
      and clone: "remote_clone s (CloneDirectory (artifact (reader s)))
                    (cloneOpt_of (URL (artifact (reader s))) auth None) = Inr c"
      and wt: "worktree_fs c = Inr fs"
      and second: "auth_result (s\<lparr>lookups := auth_clock s\<rparr>) = Inl err"
  shows "fst (Read s) = Inl err \<and>
         filter is_clone (new_events s (snd (Read s)))
           = [EvPlainClone (CloneDirectory (artifact (reader s)))
                (cloneOpt_of (URL (artifact (reader s))) auth None)] \<and>
         filter is_pull (new_events s (snd (Read s))) = []"
proof -
  let ?d = "CloneDirectory (artifact (reader s))"
  let ?s4 = "s\<lparr>lookups := auth_clock s, repos := (repos s)(?d := c),
               open_err := (open_err s)(?d := None),
               trace := trace s @ EvPlainOpen ?d # auth_events s
                @ [EvPlainClone ?d (cloneOpt_of (URL (artifact (reader s))) auth None)]\<rparr>"
  have a4: "auth_result ?s4 = Inl err"
    using second auth_result_cong[of ?s4 "s\<lparr>lookups := auth_clock s\<rparr>"] by simp
  have e4: "auth_events ?s4 = auth_events (s\<lparr>lookups := auth_clock s\<rparr>)"
    using auth_events_cong[of ?s4 "s\<lparr>lookups := auth_clock s\<rparr>"] by simp
  have "Read s = readFromRepository (Some ?d) ?s4"
    using Read_clone_ok[OF absent first b t clone] .
  moreover have "readFromRepository (Some ?d) ?s4
      = (Inl err, ?s4\<lparr>lookups := auth_clock ?s4, trace := trace ?s4 @ EvWorktree ?d # auth_events ?s4\<rparr>)"
    using rfr_auth_fail[of ?s4 ?d fs err] wt a4 by simp
  ultimately show ?thesis
    using auth_events_class(1)[of s] auth_events_class(1)[of "s\<lparr>lookups := auth_clock s\<rparr>"] e4
    by (simp add: new_events_def filter_empty_conv)
qed

section \<open>The claims\<close>

subsection \<open>Reading the file\<close>

text \<open>
  C1: for every ArtifactSpec whose filePath names an existing readable file in the worktree,
  a successful Read returns the full contents of that file, not a prefix or an empty byte
  sequence. The code does not: \<open>readFromRepository\<close> reads into \<open>var data []byte\<close>, a
  buffer of length 0, so \<open>file.Read\<close> copies nothing. In the example world the checkout
  at \<open>/tmp/c1\<close> is behind \<open>origin\<close>, the pull succeeds, \<open>config.yaml\<close> then holds
  \<open>replicas: 2\<close>, and Read succeeds with no bytes at all.
\<close>

theorem C1_read_returns_no_bytes:
  "fst (Read (example_world example_artifact)) = Inr [] \<and>
   opened_file (repos (snd (Read (example_world example_artifact))) ''/tmp/c1'') ''config.yaml''
     = Inr ''replicas: 2''"
  by (simp add: model_defs world_defs opened_file_def)

subsection \<open>A pull that has nothing to fetch\<close>

text \<open>
  C2: when the local clone already matches the resolved ref at origin (the pull reports
  "already up to date"), Read treats the pull as success and returns the current file
  content; it does not fail with PullFailed. The code does not: it fails on every non-nil
  error of \<open>w.Pull\<close>, and \<open>NoErrAlreadyUpToDate\<close> is one. In the example world the
  checkout at \<open>/tmp/c2\<close> is at the commit of \<open>origin\<close>.
\<close>

theorem C2_up_to_date_pull_fails:
  "fst (remote_pull (example_world (example_artifact\<lparr>CloneDirectory := ''/tmp/c2''\<rparr>))
         (repos (example_world (example_artifact\<lparr>CloneDirectory := ''/tmp/c2''\<rparr>)) ''/tmp/c2'')
         (pullOpts_of None None)) = Some NoErrAlreadyUpToDate \<and>
   fst (Read (example_world (example_artifact\<lparr>CloneDirectory := ''/tmp/c2''\<rparr>)))
     = Inl (PullFailed NoErrAlreadyUpToDate)"
  by (simp add: model_defs world_defs pullOpts_of_def)

text \<open>
  C5: two consecutive Read calls with the identical ArtifactSpec against an unchanged
  remote both succeed and return byte-identical content. The code does not: in the
  example world the first call pulls \<open>/tmp/c1\<close> up to \<open>origin\<close> and succeeds; it leaves
  the reader and the remote as they were; the second call then finds nothing to fetch and
  fails with PullFailed.
\<close>

theorem C5_second_read_fails:
  "fst (Read (example_world example_artifact)) = Inr [] \<and>
   reader (snd (Read (example_world example_artifact))) = reader (example_world example_artifact) \<and>
   remote_pull (snd (Read (example_world example_artifact)))
     = remote_pull (example_world example_artifact) \<and>
   fst (Read (snd (Read (example_world example_artifact))))
     = Inl (PullFailed NoErrAlreadyUpToDate)"
  by (simp add: model_defs world_defs)

subsection \<open>Opening the repository\<close>

text \<open>
  C8: if opening the repository at cloneDirectory fails for any reason other than
  "repository does not exist", Read fails with RepositoryOpenFailed and does not attempt a
  clone: the open is the only call it makes.
\<close>

theorem C8_other_open_failure_aborts:
  assumes "open_err s (CloneDirectory (artifact (reader s))) = Some e"
      and "e \<noteq> ErrRepositoryNotExists"
  shows "fst (Read s) = Inl (RepositoryOpenFailed e) \<and>
         new_events s (snd (Read s)) = [EvPlainOpen (CloneDirectory (artifact (reader s)))] \<and>
         filter is_clone (new_events s (snd (Read s))) = []"
  using Read_open_fail[OF assms] by (simp add: new_events_def)

text \<open>The directory \<open>/tmp/locked\<close> of the example world cannot be opened.\<close>

theorem C8_witness:
  "open_err (example_world (example_artifact\<lparr>CloneDirectory := ''/tmp/locked''\<rparr>)) ''/tmp/locked''
     = Some (ErrOther ''permission denied'') \<and>
   ErrOther ''permission denied'' \<noteq> ErrRepositoryNotExists \<and>
   fst (Read (example_world (example_artifact\<lparr>CloneDirectory := ''/tmp/locked''\<rparr>)))
     = Inl (RepositoryOpenFailed (ErrOther ''permission denied'')) \<and>
   filter is_clone (new_events (example_world (example_artifact\<lparr>CloneDirectory := ''/tmp/locked''\<rparr>))
      (snd (Read (example_world (example_artifact\<lparr>CloneDirectory := ''/tmp/locked''\<rparr>))))) = []"
  using C8_other_open_failure_aborts
    [of "example_world (example_artifact\<lparr>CloneDirectory := ''/tmp/locked''\<rparr>)"
        "ErrOther ''permission denied''"]
  by (simp add: world_defs)

subsection \<open>Precedence\<close>





subsection \<open>The artifact\<close>

text \<open>
  C10: for every outcome, success or any error, a Read call leaves every field of the
  ArtifactSpec unchanged.
\<close>

theorem C10_artifact_unchanged:
  "artifact (reader (snd (Read s))) = artifact (reader s)"
  by (simp add: Read_reader)

subsection \<open>Reference resolution\<close>

text \<open>
  C3, as the code has it: for every ArtifactSpec with branch set to a name the repository
  that opens at cloneDirectory does not know (its lookup answers with an error, go-git's
  \<open>ErrBranchNotFound\<close>) and tag unset, Read fails and performs no clone and no pull. The
  failure is BranchNotFound whenever the worktree is available and authentication
  resolves; the two steps before reference resolution fail first: with WorktreeUnavailable
  when the worktree cannot be obtained, and with the error of the authentication when the
  worktree is available and authentication fails.
\<close>

theorem C3_missing_branch:
  assumes "open_err s (CloneDirectory (artifact (reader s))) = None"
      and "Branch (artifact (reader s)) \<noteq> ''''"
      and "Tag (artifact (reader s)) = ''''"
      and "cfg_Branches (repos s (CloneDirectory (artifact (reader s)))) (Branch (artifact (reader s)))
             = Inl e"
  shows "isl (fst (Read s)) \<and>
         filter (\<lambda>ev. is_clone ev \<or> is_pull ev) (new_events s (snd (Read s))) = [] \<and>
         (\<forall>e'. worktree_fs (repos s (CloneDirectory (artifact (reader s)))) = Inl e'
            \<longrightarrow> fst (Read s) = Inl (WorktreeUnavailable e')) \<and>
         (\<forall>fs err. worktree_fs (repos s (CloneDirectory (artifact (reader s)))) = Inr fs \<and>
                    fst (getGitAuth s) = Inl err
            \<longrightarrow> fst (Read s) = Inl err) \<and>
         (\<forall>fs auth. worktree_fs (repos s (CloneDirectory (artifact (reader s)))) = Inr fs \<and>
                    fst (getGitAuth s) = Inr auth
            \<longrightarrow> fst (Read s) = Inl (BranchNotFound e))"
proof -
  let ?d = "CloneDirectory (artifact (reader s))"
  let ?s1 = "s\<lparr>trace := trace s @ [EvPlainOpen ?d]\<rparr>"
  have r: "Read s = readFromRepository (Some ?d) ?s1"
    using assms(1) by (rule Read_open_ok)
  have wt: "fst (Read s) = Inl (WorktreeUnavailable e')"
    if "worktree_fs (repos s ?d) = Inl e'" for e'
    using rfr_worktree_fail[of ?s1 ?d e'] that r by simp
  have au: "fst (Read s) = Inl err"
    if "worktree_fs (repos s ?d) = Inr fs" "auth_result s = Inl err" for fs err
    using rfr_auth_fail[of ?s1 ?d fs err] that r by simp
  show ?thesis
    using rfr_missing_branch[of ?s1 ?d e] assms wt au
    by (simp add: r auth_result_def[symmetric] new_events_rfr[where xs = "[EvPlainOpen ?d]"])
qed

text \<open>
  The checkout at \<open>/tmp/c1\<close> has no branch \<open>does-not-exist\<close>: without credentials the
  failure is BranchNotFound, and with a credential block whose password secret is missing
  it is the error of the authentication.
\<close>

theorem C3_witness:
  "open_err (example_world (example_artifact\<lparr>Branch := ''does-not-exist''\<rparr>)) ''/tmp/c1'' = None \<and>
   cfg_Branches (repos (example_world (example_artifact\<lparr>Branch := ''does-not-exist''\<rparr>)) ''/tmp/c1'')
      ''does-not-exist'' = Inl ErrBranchNotFound \<and>
   fst (getGitAuth (example_world (example_artifact\<lparr>Branch := ''does-not-exist''\<rparr>))) = Inr None \<and>
   fst (Read (example_world (example_artifact\<lparr>Branch := ''does-not-exist''\<rparr>)))
     = Inl (BranchNotFound ErrBranchNotFound) \<and>
   filter (\<lambda>ev. is_clone ev \<or> is_pull ev)
     (new_events (example_world (example_artifact\<lparr>Branch := ''does-not-exist''\<rparr>))
        (snd (Read (example_world (example_artifact\<lparr>Branch := ''does-not-exist''\<rparr>))))) = [] \<and>
   fst (getGitAuth (example_world (example_artifact
      \<lparr>Branch := ''does-not-exist'',
       Creds := Some (example_creds\<lparr>Password := \<lparr>Name = ''git-creds'', Key = ''token''\<rparr>\<rparr>)\<rparr>)))
     = Inl (SecretLookupFailed ''password'' (ErrOther ''secret not found'')) \<and>
   fst (Read (example_world (example_artifact
      \<lparr>Branch := ''does-not-exist'',
       Creds := Some (example_creds\<lparr>Password := \<lparr>Name = ''git-creds'', Key = ''token''\<rparr>\<rparr>)\<rparr>)))
     = Inl (SecretLookupFailed ''password'' (ErrOther ''secret not found''))"
  using C3_missing_branch[of "example_world (example_artifact\<lparr>Branch := ''does-not-exist''\<rparr>)"
      ErrBranchNotFound]
    C3_missing_branch[of "example_world (example_artifact
      \<lparr>Branch := ''does-not-exist'',
       Creds := Some (example_creds\<lparr>Password := \<lparr>Name = ''git-creds'', Key = ''token''\<rparr>\<rparr>)\<rparr>)"
      ErrBranchNotFound]
  by (simp add: model_defs world_defs new_events_def)

text \<open>
  C3 as stated promises BranchNotFound for every such ArtifactSpec. With a credential
  block whose password secret is missing, the same missing branch and the same repository
  give SecretLookupFailed: authentication is resolved before the reference.
\<close>

theorem C3_counterexample:
  "Branch (artifact (reader (example_world (example_artifact
      \<lparr>Branch := ''does-not-exist'',
       Creds := Some (example_creds\<lparr>Password := \<lparr>Name = ''git-creds'', Key = ''token''\<rparr>\<rparr>)\<rparr>))))
     = ''does-not-exist'' \<and>
   Tag (artifact (reader (example_world (example_artifact
      \<lparr>Branch := ''does-not-exist'',
       Creds := Some (example_creds\<lparr>Password := \<lparr>Name = ''git-creds'', Key = ''token''\<rparr>\<rparr>)\<rparr>))))
     = '''' \<and>
   open_err (example_world (example_artifact
      \<lparr>Branch := ''does-not-exist'',
       Creds := Some (example_creds\<lparr>Password := \<lparr>Name = ''git-creds'', Key = ''token''\<rparr>\<rparr>)\<rparr>))
      ''/tmp/c1'' = None \<and>
   cfg_Branches (repos (example_world (example_artifact
      \<lparr>Branch := ''does-not-exist'',
       Creds := Some (example_creds\<lparr>Password := \<lparr>Name = ''git-creds'', Key = ''token''\<rparr>\<rparr>)\<rparr>))
      ''/tmp/c1'') ''does-not-exist'' = Inl ErrBranchNotFound \<and>
   fst (Read (example_world (example_artifact
      \<lparr>Branch := ''does-not-exist'',
       Creds := Some (example_creds\<lparr>Password := \<lparr>Name = ''git-creds'', Key = ''token''\<rparr>\<rparr>)\<rparr>)))
     = Inl (SecretLookupFailed ''password'' (ErrOther ''secret not found''))"
  by (simp add: model_defs world_defs)

text \<open>
  C4: with a non-empty branch or tag and no repository at cloneDirectory, the clone path of
  Read resolves the reference on the nil repository returned by the failed open, never on
  a repository: the open returns nil, resolution on nil panics whatever the state, so Read
  fails in every case, with the nil dereference once authentication has resolved and with
  the authentication error otherwise; no branch or tag is looked up, and neither a clone
  nor a pull is reached.
\<close>

theorem C4_clone_path_nil_repository:
  assumes "open_err s (CloneDirectory (artifact (reader s))) = Some ErrRepositoryNotExists"
      and "Branch (artifact (reader s)) \<noteq> '''' \<or> Tag (artifact (reader s)) \<noteq> ''''"
  shows "fst (PlainOpen (CloneDirectory (artifact (reader s))) s) = (None, Some ErrRepositoryNotExists) \<and>
         (\<forall>s'. fst (getBranchOrTag None (Branch (artifact (reader s))) (Tag (artifact (reader s))) s')
                 = Inl NilPointerDereference) \<and>
         isl (fst (Read s)) \<and>
         (\<forall>auth. fst (getGitAuth s) = Inr auth \<longrightarrow> fst (Read s) = Inl NilPointerDereference) \<and>
         (\<forall>err. fst (getGitAuth s) = Inl err \<longrightarrow> fst (Read s) = Inl err) \<and>
         filter (\<lambda>ev. is_ref_lookup ev \<or> is_clone ev \<or> is_pull ev) (new_events s (snd (Read s))) = []"
proof (cases "auth_result s")
  case (Inl err)
  from Read_clone_auth_fail[OF assms(1) Inl] Inl assms auth_events_class[of s]
  show ?thesis
    by (auto simp: new_events_def PlainOpen_def getBranchOrTag_def auth_result_def filter_empty_conv)
next
  case (Inr auth)
  from Read_clone_nil_deref[OF assms(1) Inr assms(2)] Inr assms auth_events_class[of s]
  show ?thesis
    by (auto simp: new_events_def PlainOpen_def getBranchOrTag_def auth_result_def filter_empty_conv)
qed

text \<open>No repository at \<open>/tmp/fresh\<close>, branch \<open>main\<close> requested: the open is the only call.\<close>

theorem C4_witness:
  "open_err (example_world (example_artifact\<lparr>CloneDirectory := ''/tmp/fresh'', Branch := ''main''\<rparr>))
      ''/tmp/fresh'' = Some ErrRepositoryNotExists \<and>
   Branch (artifact (reader
      (example_world (example_artifact\<lparr>CloneDirectory := ''/tmp/fresh'', Branch := ''main''\<rparr>))))
     = ''main'' \<and>
   fst (getGitAuth (example_world (example_artifact\<lparr>CloneDirectory := ''/tmp/fresh'', Branch := ''main''\<rparr>)))
     = Inr None \<and>
   fst (Read (example_world (example_artifact\<lparr>CloneDirectory := ''/tmp/fresh'', Branch := ''main''\<rparr>)))
     = Inl NilPointerDereference \<and>
   new_events (example_world (example_artifact\<lparr>CloneDirectory := ''/tmp/fresh'', Branch := ''main''\<rparr>))
     (snd (Read (example_world (example_artifact\<lparr>CloneDirectory := ''/tmp/fresh'', Branch := ''main''\<rparr>))))
     = [EvPlainOpen ''/tmp/fresh'']"
  using C4_clone_path_nil_repository
     [of "example_world (example_artifact\<lparr>CloneDirectory := ''/tmp/fresh'', Branch := ''main''\<rparr>)"]
  by (simp add: model_defs world_defs new_events_def)

subsection \<open>Secret lookups\<close>

text \<open>
  C9, as the code has it: for every ArtifactSpec with a basic-auth credential block
  configured, if the Secret Provider returns an error for the username or the password
  lookup of the first authentication resolution of the call (the password is looked up
  when the username lookup has succeeded), Read performs no clone and no pull in that
  call and fails: with SecretLookupFailed carrying that error when there is no repository
  at cloneDirectory or the repository opens with its worktree available, with
  RepositoryOpenFailed when the open fails for another reason, and with
  WorktreeUnavailable when the worktree of the opened repository cannot be obtained. A
  second resolution follows when there is no repository at cloneDirectory, neither branch
  nor tag is set, the lookups of the first resolution succeed, the clone they authenticate
  succeeds and its worktree is available: if the provider then returns an error for the
  username or the password lookup of the second resolution, Read fails with
  SecretLookupFailed carrying that error, having made that one clone, and performs no
  pull.
\<close>

theorem C9_secret_failure_is_fatal:
  assumes creds: "Creds (artifact (reader s)) = Some creds"
  shows
   "(let d = CloneDirectory (artifact (reader s));
         username = (\<lambda>n. kubeClientset (reader s) n (Namespace (artifact (reader s)))
                            (Name (Username creds)) (Key (Username creds)));
         password = (\<lambda>n. kubeClientset (reader s) n (Namespace (artifact (reader s)))
                            (Name (Password creds)) (Key (Password creds)))
     in
       (\<forall>err.
          (\<exists>e. username (lookups s) = Inl e \<and> err = SecretLookupFailed ''username'' e) \<or>
          (\<exists>u e. username (lookups s) = Inr u \<and> password (Suc (lookups s)) = Inl e \<and>
                 err = SecretLookupFailed ''password'' e)
          \<longrightarrow>
          filter (\<lambda>ev. is_clone ev \<or> is_pull ev) (new_events s (snd (Read s))) = [] \<and>
          (\<forall>e'. open_err s d = Some e' \<and> e' \<noteq> ErrRepositoryNotExists
                \<longrightarrow> fst (Read s) = Inl (RepositoryOpenFailed e')) \<and>
          (\<forall>e'. open_err s d = None \<and> worktree_fs (repos s d) = Inl e'
                \<longrightarrow> fst (Read s) = Inl (WorktreeUnavailable e')) \<and>
          (\<forall>fs. open_err s d = None \<and> worktree_fs (repos s d) = Inr fs
                \<longrightarrow> fst (Read s) = Inl err) \<and>
          (open_err s d = Some ErrRepositoryNotExists \<longrightarrow> fst (Read s) = Inl err))
       \<and>
       (\<forall>u p c fs err.
          open_err s d = Some ErrRepositoryNotExists \<and>
          Branch (artifact (reader s)) = '''' \<and> Tag (artifact (reader s)) = '''' \<and>
          username (lookups s) = Inr u \<and> password (Suc (lookups s)) = Inr p \<and>
          remote_clone s d (cloneOpt_of (URL (artifact (reader s))) (Some (BasicAuth u p)) None)
            = Inr c \<and>
          worktree_fs c = Inr fs \<and>
          ((\<exists>e. username (Suc (Suc (lookups s))) = Inl e \<and> err = SecretLookupFailed ''username'' e) \<or>
           (\<exists>u' e. username (Suc (Suc (lookups s))) = Inr u' \<and>
                   password (Suc (Suc (Suc (lookups s)))) = Inl e \<and>
                   err = SecretLookupFailed ''password'' e))
          \<longrightarrow>
          fst (Read s) = Inl err \<and>
          filter is_clone (new_events s (snd (Read s)))
            = [EvPlainClone d (cloneOpt_of (URL (artifact (reader s))) (Some (BasicAuth u p)) None)] \<and>
          filter is_pull (new_events s (snd (Read s))) = []))"
proof -
  let ?d = "CloneDirectory (artifact (reader s))"
  let ?user = "\<lambda>n. kubeClientset (reader s) n (Namespace (artifact (reader s)))
                            (Name (Username creds)) (Key (Username creds))"
  let ?pass = "\<lambda>n. kubeClientset (reader s) n (Namespace (artifact (reader s)))
                            (Name (Password creds)) (Key (Password creds))"
  have first:
    "filter (\<lambda>ev. is_clone ev \<or> is_pull ev) (new_events s (snd (Read s))) = [] \<and>
          (\<forall>e'. open_err s ?d = Some e' \<and> e' \<noteq> ErrRepositoryNotExists
                \<longrightarrow> fst (Read s) = Inl (RepositoryOpenFailed e')) \<and>
          (\<forall>e'. open_err s ?d = None \<and> worktree_fs (repos s ?d) = Inl e'
                \<longrightarrow> fst (Read s) = Inl (WorktreeUnavailable e')) \<and>
          (\<forall>fs. open_err s ?d = None \<and> worktree_fs (repos s ?d) = Inr fs
                \<longrightarrow> fst (Read s) = Inl err) \<and>
          (open_err s ?d = Some ErrRepositoryNotExists \<longrightarrow> fst (Read s) = Inl err)"
    if "(\<exists>e. ?user (lookups s) = Inl e \<and> err = SecretLookupFailed ''username'' e) \<or>
        (\<exists>u e. ?user (lookups s) = Inr u \<and> ?pass (Suc (lookups s)) = Inl e \<and>
                 err = SecretLookupFailed ''password'' e)" for err
  proof -
    have "auth_result s = Inl err"
      using that auth_basic_result[OF creds] by auto
    then show ?thesis by (rule Read_auth_fails)
  qed
  have second:
    "fst (Read s) = Inl err \<and>
          filter is_clone (new_events s (snd (Read s)))
            = [EvPlainClone ?d (cloneOpt_of (URL (artifact (reader s))) (Some (BasicAuth u p)) None)] \<and>
          filter is_pull (new_events s (snd (Read s))) = []"
    if absent: "open_err s ?d = Some ErrRepositoryNotExists"
      and b: "Branch (artifact (reader s)) = ''''" and t: "Tag (artifact (reader s)) = ''''"
      and u: "?user (lookups s) = Inr u" and p: "?pass (Suc (lookups s)) = Inr p"
      and c: "remote_clone s ?d (cloneOpt_of (URL (artifact (reader s))) (Some (BasicAuth u p)) None)
            = Inr c"
      and wt: "worktree_fs c = Inr fs"
      and f: "(\<exists>e. ?user (Suc (Suc (lookups s))) = Inl e \<and> err = SecretLookupFailed ''username'' e) \<or>
           (\<exists>u' e. ?user (Suc (Suc (lookups s))) = Inr u' \<and>
                   ?pass (Suc (Suc (Suc (lookups s)))) = Inl e \<and>
                   err = SecretLookupFailed ''password'' e)"
    for u p c fs err
  proof -
    have a1: "auth_result s = Inr (Some (BasicAuth u p))"
      using u p auth_basic_result[OF creds] by simp
    have clock: "auth_clock s = Suc (Suc (lookups s))"
      using u auth_basic_clock[OF creds] by simp
    have "Creds (artifact (reader (s\<lparr>lookups := auth_clock s\<rparr>))) = Some creds"
      using creds by simp
    from auth_basic_result[OF this] f clock
    have a2: "auth_result (s\<lparr>lookups := auth_clock s\<rparr>) = Inl err"
      by auto
    show ?thesis
      using Read_second_auth_fails[OF absent a1 b t c wt a2] .
  qed
  show ?thesis
    unfolding Let_def
    apply (rule conjI)
     apply (intro allI impI)
     apply (erule first)
    apply (intro allI impI)
    apply (elim conjE)
    apply (rule second; assumption)
    done
qed

text \<open>
  With a password reference to a key the secret does not have, at the checkout \<open>/tmp/c1\<close>;
  and with the provider that cannot be reached after two lookups, at the empty directory
  \<open>/tmp/fresh\<close>.
\<close>

theorem C9_witness:
  "Creds (artifact (reader (world_of steady_client (example_artifact
      \<lparr>Creds := Some (example_creds\<lparr>Password := \<lparr>Name = ''git-creds'', Key = ''token''\<rparr>\<rparr>)\<rparr>))))
     = Some (example_creds\<lparr>Password := \<lparr>Name = ''git-creds'', Key = ''token''\<rparr>\<rparr>) \<and>
   steady_client 0 ''argo-events'' ''git-creds'' ''username'' = Inr ''alice'' \<and>
   steady_client 1 ''argo-events'' ''git-creds'' ''token'' = Inl (ErrOther ''secret not found'') \<and>
   fst (Read (world_of steady_client (example_artifact
      \<lparr>Creds := Some (example_creds\<lparr>Password := \<lparr>Name = ''git-creds'', Key = ''token''\<rparr>\<rparr>)\<rparr>)))
     = Inl (SecretLookupFailed ''password'' (ErrOther ''secret not found'')) \<and>
   filter (\<lambda>ev. is_clone ev \<or> is_pull ev)
     (new_events (world_of steady_client (example_artifact
        \<lparr>Creds := Some (example_creds\<lparr>Password := \<lparr>Name = ''git-creds'', Key = ''token''\<rparr>\<rparr>)\<rparr>))
       (snd (Read (world_of steady_client (example_artifact
        \<lparr>Creds := Some (example_creds\<lparr>Password := \<lparr>Name = ''git-creds'', Key = ''token''\<rparr>\<rparr>)\<rparr>)))))
     = [] \<and>
   Creds (artifact (reader (world_of expiring_client
      (example_artifact\<lparr>CloneDirectory := ''/tmp/fresh'', Creds := Some example_creds\<rparr>))))
     = Some example_creds \<and>
   open_err (world_of expiring_client
      (example_artifact\<lparr>CloneDirectory := ''/tmp/fresh'', Creds := Some example_creds\<rparr>)) ''/tmp/fresh''
     = Some ErrRepositoryNotExists \<and>
   expiring_client 0 ''argo-events'' ''git-creds'' ''username'' = Inr ''alice'' \<and>
   expiring_client 1 ''argo-events'' ''git-creds'' ''password'' = Inr ''s3cret'' \<and>
   expiring_client 2 ''argo-events'' ''git-creds'' ''username'' = Inl (ErrOther ''connection refused'') \<and>
   fst (Read (world_of expiring_client
      (example_artifact\<lparr>CloneDirectory := ''/tmp/fresh'', Creds := Some example_creds\<rparr>)))
     = Inl (SecretLookupFailed ''username'' (ErrOther ''connection refused'')) \<and>
   filter is_clone
     (new_events (world_of expiring_client
        (example_artifact\<lparr>CloneDirectory := ''/tmp/fresh'', Creds := Some example_creds\<rparr>))
       (snd (Read (world_of expiring_client
        (example_artifact\<lparr>CloneDirectory := ''/tmp/fresh'', Creds := Some example_creds\<rparr>)))))
     = [EvPlainClone ''/tmp/fresh''
          (cloneOpt_of ''https://example.com/repo.git'' (Some (BasicAuth ''alice'' ''s3cret'')) None)] \<and>
   filter is_pull
     (new_events (world_of expiring_client
        (example_artifact\<lparr>CloneDirectory := ''/tmp/fresh'', Creds := Some example_creds\<rparr>))
       (snd (Read (world_of expiring_client
        (example_artifact\<lparr>CloneDirectory := ''/tmp/fresh'', Creds := Some example_creds\<rparr>)))))
     = []"
  using C9_secret_failure_is_fatal[of "world_of steady_client (example_artifact
        \<lparr>Creds := Some (example_creds\<lparr>Password := \<lparr>Name = ''git-creds'', Key = ''token''\<rparr>\<rparr>)\<rparr>)"
        "example_creds\<lparr>Password := \<lparr>Name = ''git-creds'', Key = ''token''\<rparr>\<rparr>"]
    C9_secret_failure_is_fatal[of "world_of expiring_client
        (example_artifact\<lparr>CloneDirectory := ''/tmp/fresh'', Creds := Some example_creds\<rparr>)"
        example_creds]
  by (simp add: model_defs world_defs new_events_def cloneOpt_of_def)

text \<open>
  C9 as stated promises SecretLookupFailed, no clone and no pull whenever the provider
  returns an error for a lookup. At \<open>/tmp/locked\<close>, with the password secret missing,
  Read fails with RepositoryOpenFailed: it stops before authentication. At
  \<open>/tmp/fresh\<close>, with the provider that fails from its third lookup on, Read fails with
  SecretLookupFailed after it has cloned: the secrets are looked up again after the clone.
\<close>

theorem C9_counterexample:
  "Creds (artifact (reader (world_of steady_client (example_artifact
      \<lparr>CloneDirectory := ''/tmp/locked'',
       Creds := Some (example_creds\<lparr>Password := \<lparr>Name = ''git-creds'', Key = ''token''\<rparr>\<rparr>)\<rparr>))))
     = Some (example_creds\<lparr>Password := \<lparr>Name = ''git-creds'', Key = ''token''\<rparr>\<rparr>) \<and>
   steady_client 1 ''argo-events'' ''git-creds'' ''token'' = Inl (ErrOther ''secret not found'') \<and>
   fst (Read (world_of steady_client (example_artifact
      \<lparr>CloneDirectory := ''/tmp/locked'',
       Creds := Some (example_creds\<lparr>Password := \<lparr>Name = ''git-creds'', Key = ''token''\<rparr>\<rparr>)\<rparr>)))
     = Inl (RepositoryOpenFailed (ErrOther ''permission denied'')) \<and>
   Creds (artifact (reader (world_of expiring_client
      (example_artifact\<lparr>CloneDirectory := ''/tmp/fresh'', Creds := Some example_creds\<rparr>))))
     = Some example_creds \<and>
   expiring_client 2 ''argo-events'' ''git-creds'' ''username'' = Inl (ErrOther ''connection refused'') \<and>
   fst (Read (world_of expiring_client
      (example_artifact\<lparr>CloneDirectory := ''/tmp/fresh'', Creds := Some example_creds\<rparr>)))
     = Inl (SecretLookupFailed ''username'' (ErrOther ''connection refused'')) \<and>
   new_events (world_of expiring_client
        (example_artifact\<lparr>CloneDirectory := ''/tmp/fresh'', Creds := Some example_creds\<rparr>))
       (snd (Read (world_of expiring_client
        (example_artifact\<lparr>CloneDirectory := ''/tmp/fresh'', Creds := Some example_creds\<rparr>))))
     = [EvPlainOpen ''/tmp/fresh'',
        EvGetSecrets ''argo-events'' ''git-creds'' ''username'',
        EvGetSecrets ''argo-events'' ''git-creds'' ''password'',
        EvPlainClone ''/tmp/fresh''
          (cloneOpt_of ''https://example.com/repo.git'' (Some (BasicAuth ''alice'' ''s3cret'')) None),
        EvWorktree ''/tmp/fresh'',
        EvGetSecrets ''argo-events'' ''git-creds'' ''username'']"
  by (simp add: model_defs world_defs new_events_def cloneOpt_of_def)

end
